theory Spec2Isabelle
  imports Complex_Main "HOL-Library.Word" "HOL-Library.Signed_Division"
begin

section \<open>pinfoplot: the sampler and the plot pipeline of \<^verbatim>\<open>main.go\<close>\<close>

subsection \<open>Values of the Go program\<close>

text \<open>
  \<^verbatim>\<open>time.Duration\<close> is an \<^verbatim>\<open>int64\<close> count of nanoseconds; it is compared and
  divided as a signed number. \<^verbatim>\<open>time.Time\<close> values are only handed back to the
  clock, so an instant is an integer reading of the monotonic clock.
\<close>

type_synonym Duration = "64 word"
type_synonym Time = int

text \<open>
  Go's \<^verbatim>\<open>/\<close> on \<^verbatim>\<open>int64\<close> truncates towards zero, wraps on
  \<^verbatim>\<open>MinInt64 / -1\<close>, and panics on a zero divisor (\<open>None\<close> here).
\<close>

definition duration_div :: "Duration \<Rightarrow> Duration \<Rightarrow> Duration option" where
  "duration_div a b = (if b = 0 then None else Some (word_of_int (sint a sdiv sint b)))"

text \<open>
  The errors of the program: the one \<^verbatim>\<open>New\<close> builds itself with
  \<^verbatim>\<open>fmt.Errorf("need at least 2 samples, ...")\<close>, and the opaque errors of the
  libraries, which the code hands on unchanged.
\<close>

datatype error = InsufficientSamplesError | ExternalError string

datatype panic = DivideByZero | MakesliceOutOfRange | IndexOutOfRange nat nat | LibraryPanic

datatype 'a outcome = Panic panic | Return 'a

text \<open>The fields of gopsutil's \<^verbatim>\<open>MemoryInfoStat\<close> and \<^verbatim>\<open>IOCountersStat\<close> that the program reads.\<close>

record MemoryInfoStat =
  RSS :: "64 word"
  VMS :: "64 word"

record IOCountersStat =
  ReadCount :: "64 word"
  WriteCount :: "64 word"

datatype Process = Process (ProcPid: "32 word")

text \<open>\<^verbatim>\<open>type sample struct\<close>; \<open>'f\<close> stands for \<^verbatim>\<open>float64\<close>.\<close>

record 'f sample =
  mem :: MemoryInfoStat
  io :: IOCountersStat
  cpu :: 'f
  interval :: Duration

text \<open>\<^verbatim>\<open>type ProcessInfo struct\<close>.\<close>

record 'f ProcessInfo =
  Pid :: "32 word"
  StartTime :: Time
  SamplingInterval :: Duration
  Samples :: "'f sample list"

subsection \<open>The environment of the sampler\<close>

text \<open>
  \<^verbatim>\<open>New\<close> talks to three collaborators that are not part of the repository: the
  process-metrics provider (gopsutil), the clock (\<^verbatim>\<open>time.Now\<close>, \<^verbatim>\<open>time.Since\<close>,
  \<^verbatim>\<open>time.Sleep\<close>) and the allocator behind \<^verbatim>\<open>make\<close>. They are parameters: each
  operation reads and updates a world \<open>'w\<close> and may answer with an error.
  \<open>makeslice\<close> tells whether a slice of the requested capacity can be allocated
  (\<^verbatim>\<open>make\<close> panics otherwise).
\<close>

record ('f, 'w) env =
  NewProcess :: "32 word \<Rightarrow> 'w \<Rightarrow> (error + Process) \<times> 'w"
  IsRunning :: "Process \<Rightarrow> 'w \<Rightarrow> (error + bool) \<times> 'w"
  MemoryInfo :: "Process \<Rightarrow> 'w \<Rightarrow> (error + MemoryInfoStat) \<times> 'w"
  IOCounters :: "Process \<Rightarrow> 'w \<Rightarrow> (error + IOCountersStat) \<times> 'w"
  CPUPercent :: "Process \<Rightarrow> 'w \<Rightarrow> (error + 'f) \<times> 'w"
  Now :: "'w \<Rightarrow> Time \<times> 'w"
  Since :: "Time \<Rightarrow> 'w \<Rightarrow> Duration \<times> 'w"
  Sleep :: "Duration \<Rightarrow> 'w \<Rightarrow> 'w"
  makeslice :: "Duration \<Rightarrow> bool"

text \<open>
  Every call that leaves the program is recorded, in order, with what it answered:
  the error of a provider call (if any) and the reading of the clock.
\<close>

datatype event =
    EvNewProcess "32 word" "error option"
  | EvIsRunning "error option"
  | EvMemoryInfo "error option"
  | EvIOCounters "error option"
  | EvCPUPercent "error option"
  | EvNow
  | EvSince Duration
  | EvSleep Duration

record 'w state =
  world :: 'w
  trace :: "event list"

definition init :: "'w \<Rightarrow> 'w state" where
  "init w = \<lparr>world = w, trace = []\<rparr>"

fun err_of :: "error + 'a \<Rightarrow> error option" where
  "err_of (Inl e) = Some e"
| "err_of (Inr _) = None"

definition call_NewProcess ::
  "('f, 'w) env \<Rightarrow> 32 word \<Rightarrow> 'w state \<Rightarrow> (error + Process) \<times> 'w state" where
  "call_NewProcess E p s =
     (case NewProcess E p (world s) of
        (r, w') \<Rightarrow> (r, \<lparr>world = w', trace = trace s @ [EvNewProcess p (err_of r)]\<rparr>))"

definition call_IsRunning ::
  "('f, 'w) env \<Rightarrow> Process \<Rightarrow> 'w state \<Rightarrow> (error + bool) \<times> 'w state" where
  "call_IsRunning E proc s =
     (case IsRunning E proc (world s) of
        (r, w') \<Rightarrow> (r, \<lparr>world = w', trace = trace s @ [EvIsRunning (err_of r)]\<rparr>))"

definition call_MemoryInfo ::
  "('f, 'w) env \<Rightarrow> Process \<Rightarrow> 'w state \<Rightarrow> (error + MemoryInfoStat) \<times> 'w state" where
  "call_MemoryInfo E proc s =
     (case MemoryInfo E proc (world s) of
        (r, w') \<Rightarrow> (r, \<lparr>world = w', trace = trace s @ [EvMemoryInfo (err_of r)]\<rparr>))"

definition call_IOCounters ::
  "('f, 'w) env \<Rightarrow> Process \<Rightarrow> 'w state \<Rightarrow> (error + IOCountersStat) \<times> 'w state" where
  "call_IOCounters E proc s =
     (case IOCounters E proc (world s) of
        (r, w') \<Rightarrow> (r, \<lparr>world = w', trace = trace s @ [EvIOCounters (err_of r)]\<rparr>))"

definition call_CPUPercent ::
  "('f, 'w) env \<Rightarrow> Process \<Rightarrow> 'w state \<Rightarrow> (error + 'f) \<times> 'w state" where
  "call_CPUPercent E proc s =
     (case CPUPercent E proc (world s) of
        (r, w') \<Rightarrow> (r, \<lparr>world = w', trace = trace s @ [EvCPUPercent (err_of r)]\<rparr>))"

definition call_Now :: "('f, 'w) env \<Rightarrow> 'w state \<Rightarrow> Time \<times> 'w state" where
  "call_Now E s =
     (case Now E (world s) of
        (t, w') \<Rightarrow> (t, \<lparr>world = w', trace = trace s @ [EvNow]\<rparr>))"

definition call_Since :: "('f, 'w) env \<Rightarrow> Time \<Rightarrow> 'w state \<Rightarrow> Duration \<times> 'w state" where
  "call_Since E start s =
     (case Since E start (world s) of
        (t, w') \<Rightarrow> (t, \<lparr>world = w', trace = trace s @ [EvSince t]\<rparr>))"

definition call_Sleep :: "('f, 'w) env \<Rightarrow> Duration \<Rightarrow> 'w state \<Rightarrow> 'w state" where
  "call_Sleep E d s = \<lparr>world = Sleep E d (world s), trace = trace s @ [EvSleep d]\<rparr>"

text \<open>Reading a trace: the answers of \<^verbatim>\<open>time.Since\<close>, and the error of a call.\<close>

fun since_readings :: "event list \<Rightarrow> Duration list" where
  "since_readings [] = []"
| "since_readings (EvSince t # evs) = t # since_readings evs"
| "since_readings (ev # evs) = since_readings evs"

fun ev_error :: "event \<Rightarrow> error option" where
  "ev_error (EvNewProcess p e) = e"
| "ev_error (EvIsRunning e) = e"
| "ev_error (EvMemoryInfo e) = e"
| "ev_error (EvIOCounters e) = e"
| "ev_error (EvCPUPercent e) = e"
| "ev_error EvNow = None"
| "ev_error (EvSince t) = None"
| "ev_error (EvSleep d) = None"

fun is_metric_query :: "event \<Rightarrow> bool" where
  "is_metric_query (EvMemoryInfo e) = True"
| "is_metric_query (EvIOCounters e) = True"
| "is_metric_query (EvCPUPercent e) = True"
| "is_metric_query ev = False"

definition answered :: "event \<Rightarrow> bool" where
  "answered ev = (ev_error ev = None)"

subsection \<open>\<^verbatim>\<open>New\<close>: the sampler\<close>

text \<open>
  The three queries of one pass of the loop (lines 83 to 94): memory, I/O counters,
  CPU, in this order; the first error ends the pass (\<^verbatim>\<open>return nil, err\<close>) and
  the later queries are not made.
\<close>

definition query_metrics ::
  "('f, 'w) env \<Rightarrow> Process \<Rightarrow> 'w state
     \<Rightarrow> (error + MemoryInfoStat \<times> IOCountersStat \<times> 'f) \<times> 'w state" where
  "query_metrics E proc s1 =
     (case call_MemoryInfo E proc s1 of
        (Inl err, s2) \<Rightarrow> (Inl err, s2)
      | (Inr m, s2) \<Rightarrow>
          (case call_IOCounters E proc s2 of
             (Inl err, s3) \<Rightarrow> (Inl err, s3)
           | (Inr i, s3) \<Rightarrow>
               (case call_CPUPercent E proc s3 of
                  (Inl err, s4) \<Rightarrow> (Inl err, s4)
                | (Inr c, s4) \<Rightarrow> (Inr (m, i, c), s4))))"

text \<open>
  The \<^verbatim>\<open>for\<close> loop of \<^verbatim>\<open>New\<close> (lines 82 to 109). Its head reads the clock
  (\<^verbatim>\<open>t := time.Since(start)\<close> at entry and again after every pass) and tests
  \<^verbatim>\<open>duration == 0 || t <= duration && running\<close>, where \<^verbatim>\<open>&&\<close> binds tighter
  than \<^verbatim>\<open>||\<close>. The loop need not end, so it is a partial function: \<open>None\<close> is a run
  that never returns.
\<close>

partial_function (option) sampling_loop ::
  "('f, 'w) env \<Rightarrow> Process \<Rightarrow> Time \<Rightarrow> Duration \<Rightarrow> Duration \<Rightarrow> bool \<Rightarrow> 'f sample list
     \<Rightarrow> 'w state \<Rightarrow> ((error + 'f sample list) \<times> 'w state) option" where
  "sampling_loop E proc start duration intv running samples s =
     (case call_Since E start s of (t, s1) \<Rightarrow>
        if duration = 0 \<or> (t \<le>s duration \<and> running) then
          (case query_metrics E proc s1 of
             (Inl err, s4) \<Rightarrow> Some (Inl err, s4)
           | (Inr (m, i, c), s4) \<Rightarrow>
               (case call_IsRunning E proc (call_Sleep E intv s4) of
                  (Inl err, s6) \<Rightarrow> Some (Inl err, s6)
                | (Inr running', s6) \<Rightarrow>
                    sampling_loop E proc start duration intv running'
                      (samples @ [\<lparr>mem = m, io = i, cpu = c, interval = t\<rparr>]) s6))
        else Some (Inr samples, s1))"

declare sampling_loop.simps [code]

text \<open>
  \<^verbatim>\<open>New(pid, duration, interval)\<close>. The result is \<open>None\<close> when the loop never
  returns, a panic, or the returned pair \<^verbatim>\<open>(*ProcessInfo, error)\<close> as a sum.
\<close>

definition New ::
  "('f, 'w) env \<Rightarrow> 32 word \<Rightarrow> Duration \<Rightarrow> Duration \<Rightarrow> 'w state
     \<Rightarrow> ((error + 'f ProcessInfo) outcome \<times> 'w state) option" where
  "New E p duration intv s =
     (case duration_div duration intv of
        None \<Rightarrow> Some (Panic DivideByZero, s)
      | Some sampleNo \<Rightarrow>
          if sampleNo <s 2 then Some (Return (Inl InsufficientSamplesError), s)
          else
            (case call_NewProcess E p s of
               (Inl err, s1) \<Rightarrow> Some (Return (Inl err), s1)
             | (Inr proc, s1) \<Rightarrow>
                 (case call_Now E s1 of (start, s2) \<Rightarrow>
                    if \<not> makeslice E sampleNo then Some (Panic MakesliceOutOfRange, s2)
                    else
                      (case call_IsRunning E proc s2 of
                         (Inl err, s3) \<Rightarrow> Some (Return (Inl err), s3)
                       | (Inr running, s3) \<Rightarrow>
                           (case sampling_loop E proc start duration intv running [] s3 of
                              None \<Rightarrow> None
                            | Some (Inl err, s4) \<Rightarrow> Some (Return (Inl err), s4)
                            | Some (Inr samples, s4) \<Rightarrow>
                                Some (Return (Inr \<lparr>Pid = p, StartTime = start,
                                    SamplingInterval = intv, Samples = samples\<rparr>), s4))))))"

subsection \<open>The plot library and the plot builders\<close>

text \<open>
  gonum's plot packages and the \<^verbatim>\<open>float64\<close> arithmetic are parameters as well:
  the conversions and operations on \<^verbatim>\<open>float64\<close> the builders use, whether
  \<^verbatim>\<open>plot.New\<close> fails, and whether \<^verbatim>\<open>plotter.NewLine\<close> refuses a point
  sequence. A line that \<^verbatim>\<open>NewLine\<close> returns holds a copy of the points it was given.
\<close>

datatype 'f XY = XY (X: 'f) (Y: 'f)

datatype RGBA = RGBA "8 word" "8 word" "8 word" "8 word"

record 'f Line =
  XYs :: "'f XY list"
  Width :: nat
  Color :: RGBA

datatype 'f Plotter = PGrid | PLine "'f Line"

record 'f Plot =
  Title :: string
  XLabel :: string
  YLabel :: string
  Plotters :: "'f Plotter list"
  Legend :: "(string \<times> 'f Line) list"

record 'f gonum =
  float64_of_uint64 :: "64 word \<Rightarrow> 'f"
  float64_const :: "int \<Rightarrow> 'f"
  fdiv :: "'f \<Rightarrow> 'f \<Rightarrow> 'f"
  fmul :: "'f \<Rightarrow> 'f \<Rightarrow> 'f"
  Seconds :: "Duration \<Rightarrow> 'f"
  plot_New :: "error option"
  NewLine_err :: "'f XY list \<Rightarrow> error option"

definition NewLine :: "'f gonum \<Rightarrow> 'f XY list \<Rightarrow> error + 'f Line" where
  "NewLine L xys =
     (case NewLine_err L xys of
        Some err \<Rightarrow> Inl err
      | None \<Rightarrow> Inr \<lparr>XYs = xys, Width = 1, Color = RGBA 0 0 0 255\<rparr>)"

text \<open>\<^verbatim>\<open>fmt.Sprintf("%d", n)\<close>: the decimal digits of a signed number.\<close>

fun digits :: "nat \<Rightarrow> string" where
  "digits n =
     (if n < 10 then [char_of (48 + n)]
      else digits (n div 10) @ [char_of (48 + n mod 10)])"

declare digits.simps [simp del]

definition fmt_d :: "int \<Rightarrow> string" where
  "fmt_d k = (if k < 0 then CHR ''-'' # digits (nat (- k)) else digits (nat k))"

text \<open>
  \<^verbatim>\<open>MemPlot\<close>. The \<^verbatim>\<open>range\<close> loop assigns every index of the two point
  slices once, from the sample of the same index, so each slice is a \<open>map\<close> over
  the samples.
\<close>

definition MemPlot :: "'f gonum \<Rightarrow> 'f ProcessInfo \<Rightarrow> error + 'f Plot" where
  "MemPlot L pinfo =
     (case plot_New L of
        Some err \<Rightarrow> Inl err
      | None \<Rightarrow>
          (let ptsRss = map (\<lambda>s. XY (Seconds L (interval s))
                                (fdiv L (float64_of_uint64 L (RSS (mem s))) (float64_const L 1024)))
                          (Samples pinfo);
               ptsVms = map (\<lambda>s. XY (Seconds L (interval s))
                                (fdiv L (float64_of_uint64 L (VMS (mem s))) (float64_const L 1024)))
                          (Samples pinfo)
           in case NewLine L ptsRss of
                Inl err \<Rightarrow> Inl err
              | Inr l1 \<Rightarrow>
                  (let lineRss = l1\<lparr>Width := 1, Color := RGBA 255 0 0 255\<rparr>
                   in case NewLine L ptsVms of
                        Inl err \<Rightarrow> Inl err
                      | Inr l2 \<Rightarrow>
                          (let lineVms = l2\<lparr>Width := 1, Color := RGBA 0 255 0 255\<rparr>
                           in Inr \<lparr>Title = ''Memory Plot of PID '' @ fmt_d (sint (Pid pinfo)),
                                   XLabel = ''t (s)'', YLabel = ''KB'',
                                   Plotters = [PGrid, PLine lineRss, PLine lineVms],
                                   Legend = [(''RSS'', lineRss), (''VMS'', lineVms)]\<rparr>))))"

text \<open>
  \<^verbatim>\<open>IoPlot\<close>. Both lines are built by \<^verbatim>\<open>plotter.NewLine(ptsR)\<close> (lines 173 and
  182); \<^verbatim>\<open>ptsW\<close> is filled and not read again.
\<close>

definition IoPlot :: "'f gonum \<Rightarrow> 'f ProcessInfo \<Rightarrow> error + 'f Plot" where
  "IoPlot L pinfo =
     (case plot_New L of
        Some err \<Rightarrow> Inl err
      | None \<Rightarrow>
          (let ptsR = map (\<lambda>s. XY (Seconds L (interval s))
                              (float64_of_uint64 L (ReadCount (io s))))
                        (Samples pinfo);
               ptsW = map (\<lambda>s. XY (Seconds L (interval s))
                              (float64_of_uint64 L (WriteCount (io s))))
                        (Samples pinfo)
           in case NewLine L ptsR of
                Inl err \<Rightarrow> Inl err
              | Inr l1 \<Rightarrow>
                  (let lineR = l1\<lparr>Width := 1, Color := RGBA 255 0 0 255\<rparr>
                   in case NewLine L ptsR of
                        Inl err \<Rightarrow> Inl err
                      | Inr l2 \<Rightarrow>
                          (let lineW = l2\<lparr>Width := 1, Color := RGBA 0 255 0 255\<rparr>
                           in Inr \<lparr>Title = ''IO Plot of PID '' @ fmt_d (sint (Pid pinfo)),
                                   XLabel = ''t (s)'', YLabel = ''op'',
                                   Plotters = [PGrid, PLine lineR, PLine lineW],
                                   Legend = [(''IO Read'', lineR), (''IO Write'', lineW)]\<rparr>))))"

text \<open>\<^verbatim>\<open>CpuPlot\<close>.\<close>

definition CpuPlot :: "'f gonum \<Rightarrow> 'f ProcessInfo \<Rightarrow> error + 'f Plot" where
  "CpuPlot L pinfo =
     (case plot_New L of
        Some err \<Rightarrow> Inl err
      | None \<Rightarrow>
          (let pts = map (\<lambda>s. XY (Seconds L (interval s)) (fmul L (cpu s) (float64_const L 100)))
                       (Samples pinfo)
           in case NewLine L pts of
                Inl err \<Rightarrow> Inl err
              | Inr l1 \<Rightarrow>
                  (let line = l1\<lparr>Width := 1, Color := RGBA 0 0 0 255\<rparr>
                   in Inr \<lparr>Title = ''CPU Plot of PID '' @ fmt_d (sint (Pid pinfo)),
                           XLabel = ''t (s)'', YLabel = ''%'',
                           Plotters = [PGrid, PLine line],
                           Legend = [(''CPU'', line)]\<rparr>)))"

text \<open>The line series of a panel, in the order they were added.\<close>

fun series :: "'f Plotter list \<Rightarrow> 'f Line list" where
  "series [] = []"
| "series (PGrid # ps) = series ps"
| "series (PLine l # ps) = l # series ps"

subsection \<open>\<^verbatim>\<open>Save\<close>: the composite image\<close>

text \<open>
  The canvas, the tiling and the file system are outside the repository.
  \<open>vgimg_New\<close> and \<open>Align\<close> tell whether the library call returns (gonum panics
  on sizes and grids it does not accept); \<open>os_Create\<close> and \<open>png_WriteTo\<close> give the
  error of the file operation, if any. The image is the tiling and the sequence of
  panels drawn, each with the row and the column of the tile it was drawn into.
\<close>

record 'f render_env =
  vgimg_New :: "'f \<Rightarrow> 'f \<Rightarrow> bool"
  Align :: "nat list \<Rightarrow> nat \<Rightarrow> nat \<Rightarrow> bool"
  os_Create :: "string \<Rightarrow> error option"
  png_WriteTo :: "string \<Rightarrow> error option"

record 'f image =
  ImgWidth :: 'f
  ImgHeight :: 'f
  Rows :: nat
  Cols :: nat
  Drawn :: "('f Plot \<times> nat \<times> nat) list"

text \<open>
  The inner loop \<^verbatim>\<open>for i := 0; i < cols; i++\<close> over row \<open>j\<close>: \<^verbatim>\<open>plots[j][i]\<close>
  panics when the row is shorter than \<^verbatim>\<open>cols\<close>; a \<^verbatim>\<open>nil\<close> panel is skipped.
\<close>

fun draw_row ::
  "'f Plot option list \<Rightarrow> nat \<Rightarrow> nat list \<Rightarrow> ('f Plot \<times> nat \<times> nat) list
     \<Rightarrow> panic + ('f Plot \<times> nat \<times> nat) list" where
  "draw_row row j [] drawn = Inr drawn"
| "draw_row row j (i # is) drawn =
     (if i < length row then
        draw_row row j is (case row ! i of None \<Rightarrow> drawn | Some pl \<Rightarrow> drawn @ [(pl, j, i)])
      else Inl (IndexOutOfRange i (length row)))"

text \<open>The outer loop \<^verbatim>\<open>for j := 0; j < rows; j++\<close>.\<close>

fun draw_rows ::
  "'f Plot option list list \<Rightarrow> nat \<Rightarrow> nat list \<Rightarrow> ('f Plot \<times> nat \<times> nat) list
     \<Rightarrow> panic + ('f Plot \<times> nat \<times> nat) list" where
  "draw_rows plots cols [] drawn = Inr drawn"
| "draw_rows plots cols (j # js) drawn =
     (case draw_row (plots ! j) j [0..<cols] drawn of
        Inl p \<Rightarrow> Inl p
      | Inr drawn' \<Rightarrow> draw_rows plots cols js drawn')"

text \<open>
  \<^verbatim>\<open>Save(plots, width, height, filename)\<close>: the returned \<^verbatim>\<open>error\<close> (or the
  panic), and the file that was written, if one was.
\<close>

definition Save ::
  "'f render_env \<Rightarrow> 'f Plot option list list \<Rightarrow> 'f \<Rightarrow> 'f \<Rightarrow> string
     \<Rightarrow> error option outcome \<times> (string \<times> 'f image) option" where
  "Save R plots width height filename =
     (let rows = length plots in
      if length plots = 0 then (Panic (IndexOutOfRange 0 0), None)
      else
        (let cols = length (plots ! 0) in
         if \<not> vgimg_New R width height then (Panic LibraryPanic, None)
         else if \<not> Align R (map length plots) rows cols then (Panic LibraryPanic, None)
         else
           (case draw_rows plots cols [0..<rows] [] of
              Inl p \<Rightarrow> (Panic p, None)
            | Inr drawn \<Rightarrow>
                (case os_Create R filename of
                   Some err \<Rightarrow> (Return (Some err), None)
                 | None \<Rightarrow>
                     (case png_WriteTo R filename of
                        Some err \<Rightarrow> (Return (Some err), None)
                      | None \<Rightarrow>
                          (Return None,
                           Some (filename, \<lparr>ImgWidth = width, ImgHeight = height,
                                   Rows = rows, Cols = cols, Drawn = drawn\<rparr>)))))))"

text \<open>The grid that \<^verbatim>\<open>main\<close> hands to \<^verbatim>\<open>Save\<close> (lines 291 to 294).\<close>

definition main_plots :: "'f Plot \<Rightarrow> 'f Plot \<Rightarrow> 'f Plot \<Rightarrow> 'f Plot option list list" where
  "main_plots memPlot ioPlot cpuPlot = [[Some memPlot], [Some ioPlot], [Some cpuPlot]]"

subsection \<open>A simulated process, for concrete runs\<close>

text \<open>
  A deterministic environment to run the definitions on: the world is the reading
  of the clock in nanoseconds, \<^verbatim>\<open>Sleep\<close> advances it, the process runs until
  \<open>exit_at\<close>, and \<open>fails q w\<close> makes query \<open>q\<close> fail at reading \<open>w\<close>.
  \<^verbatim>\<open>float64\<close> is idealised as \<open>real\<close>.
\<close>

datatype query = QNewProcess | QIsRunning | QMemoryInfo | QIOCounters | QCPUPercent

definition sim_env :: "(query \<Rightarrow> int \<Rightarrow> bool) \<Rightarrow> int \<Rightarrow> (real, int) env" where
  "sim_env fails exit_at =
     \<lparr>NewProcess = (\<lambda>p w. (if fails QNewProcess w then Inl (ExternalError ''process does not exist'')
                             else Inr (Process p), w)),
      IsRunning = (\<lambda>proc w. (if fails QIsRunning w then Inl (ExternalError ''is running'')
                               else Inr (w < exit_at), w)),
      MemoryInfo = (\<lambda>proc w. (if fails QMemoryInfo w then Inl (ExternalError ''memory info'')
                                else Inr \<lparr>RSS = word_of_int (1024 * w), VMS = 4096\<rparr>, w)),
      IOCounters = (\<lambda>proc w. (if fails QIOCounters w then Inl (ExternalError ''io counters'')
                                else Inr \<lparr>ReadCount = word_of_int w,
                                          WriteCount = word_of_int (2 * w + 1)\<rparr>, w)),
      CPUPercent = (\<lambda>proc w. (if fails QCPUPercent w then Inl (ExternalError ''cpu percent'')
                                else Inr (1 / 2), w)),
      Now = (\<lambda>w. (w, w)),
      Since = (\<lambda>start w. (word_of_int (w - start), w)),
      Sleep = (\<lambda>d w. w + sint d),
      makeslice = (\<lambda>n. sint n \<le> 2 ^ 43)\<rparr>"

definition never :: "query \<Rightarrow> int \<Rightarrow> bool" where
  "never q w = False"

definition sim_gonum :: "real gonum" where
  "sim_gonum =
     \<lparr>float64_of_uint64 = (\<lambda>n. real (unat n)),
      float64_const = (\<lambda>k. real_of_int k),
      fdiv = (\<lambda>a b. a / b),
      fmul = (\<lambda>a b. a * b),
      Seconds = (\<lambda>d. real_of_int (sint d) / 1000000000),
      plot_New = None,
      NewLine_err = (\<lambda>xys. None)\<rparr>"

definition sim_render :: "real render_env" where
  "sim_render =
     \<lparr>vgimg_New = (\<lambda>w h. 0 < w \<and> 0 < h),
      Align = (\<lambda>lens rows cols. list_all (\<lambda>n. n = cols) (take rows lens)),
      os_Create = (\<lambda>name. if name = [] then Some (ExternalError ''open: no such file or directory'') else None),
      png_WriteTo = (\<lambda>name. None)\<rparr>"

section \<open>Properties of the sampler\<close>

subsection \<open>What a call adds to the trace\<close>

lemma answered_simps [simp]:
  "answered (EvNewProcess p e) = (e = None)"
  "answered (EvIsRunning e) = (e = None)"
  "answered (EvMemoryInfo e) = (e = None)"
  "answered (EvIOCounters e) = (e = None)"
  "answered (EvCPUPercent e) = (e = None)"
  "answered EvNow"
  "answered (EvSince t)"
  "answered (EvSleep d)"
  by (simp_all add: answered_def)

lemma since_readings_append:
  "since_readings (xs @ ys) = since_readings xs @ since_readings ys"
  by (induction xs rule: since_readings.induct) simp_all

lemma trace_call_NewProcess:
  "call_NewProcess E p s = (r, s1) \<Longrightarrow> trace s1 = trace s @ [EvNewProcess p (err_of r)]"
  by (auto simp: call_NewProcess_def split: prod.splits)

lemma trace_call_Now: "call_Now E s = (t, s1) \<Longrightarrow> trace s1 = trace s @ [EvNow]"
  by (auto simp: call_Now_def split: prod.splits)

lemma trace_call_Since: "call_Since E start s = (t, s1) \<Longrightarrow> trace s1 = trace s @ [EvSince t]"
  by (auto simp: call_Since_def split: prod.splits)

lemma trace_call_MemoryInfo:
  "call_MemoryInfo E proc s = (r, s1) \<Longrightarrow> trace s1 = trace s @ [EvMemoryInfo (err_of r)]"
  by (auto simp: call_MemoryInfo_def split: prod.splits)

lemma trace_call_IOCounters:
  "call_IOCounters E proc s = (r, s1) \<Longrightarrow> trace s1 = trace s @ [EvIOCounters (err_of r)]"
  by (auto simp: call_IOCounters_def split: prod.splits)

lemma trace_call_CPUPercent:
  "call_CPUPercent E proc s = (r, s1) \<Longrightarrow> trace s1 = trace s @ [EvCPUPercent (err_of r)]"
  by (auto simp: call_CPUPercent_def split: prod.splits)

lemma trace_call_IsRunning:
  "call_IsRunning E proc s = (r, s1) \<Longrightarrow> trace s1 = trace s @ [EvIsRunning (err_of r)]"
  by (auto simp: call_IsRunning_def split: prod.splits)

lemma trace_call_Sleep: "trace (call_Sleep E d s) = trace s @ [EvSleep d]"
  by (simp add: call_Sleep_def)

text \<open>
  One block of queries adds between one and three events, none of them a reading
  of the clock; only the last one can carry an error, and it is the error returned.
\<close>

lemma trace_query_metrics:
  assumes "query_metrics E proc s = (r, s')"
  shows "\<exists>evs. trace s' = trace s @ evs \<and> evs \<noteq> [] \<and> since_readings evs = [] \<and>
           list_all answered (butlast evs) \<and> ev_error (last evs) = err_of r"
proof -
  obtain r2 s2 where s2: "call_MemoryInfo E proc s = (r2, s2)"
    by (cases "call_MemoryInfo E proc s")
  note tr2 = trace_call_MemoryInfo [OF s2]
  show ?thesis
  proof (cases r2)
    case (Inl e)
    with assms s2 have "r = Inl e" "s' = s2" by (auto simp: query_metrics_def)
    with tr2 Inl show ?thesis
      by (intro exI [of _ "[EvMemoryInfo (Some e)]"]) simp
  next
    case m: (Inr m)
    obtain r3 s3 where s3: "call_IOCounters E proc s2 = (r3, s3)"
      by (cases "call_IOCounters E proc s2")
    note tr3 = trace_call_IOCounters [OF s3]
    show ?thesis
    proof (cases r3)
      case (Inl e)
      with assms s2 s3 m have "r = Inl e" "s' = s3" by (auto simp: query_metrics_def)
      with tr2 tr3 m Inl show ?thesis
        by (intro exI [of _ "[EvMemoryInfo None, EvIOCounters (Some e)]"])
          simp
    next
      case i: (Inr i)
      obtain r4 s4 where s4: "call_CPUPercent E proc s3 = (r4, s4)"
        by (cases "call_CPUPercent E proc s3")
      note tr4 = trace_call_CPUPercent [OF s4]
      show ?thesis
      proof (cases r4)
        case (Inl e)
        with assms s2 s3 s4 m i have "r = Inl e" "s' = s4" by (auto simp: query_metrics_def)
        with tr2 tr3 tr4 m i Inl show ?thesis
          by (intro exI [of _ "[EvMemoryInfo None, EvIOCounters None, EvCPUPercent (Some e)]"])
            simp
      next
        case c: (Inr c)
        with assms s2 s3 s4 m i have "r = Inr (m, i, c)" "s' = s4"
          by (auto simp: query_metrics_def)
        with tr2 tr3 tr4 m i c show ?thesis
          by (intro exI [of _ "[EvMemoryInfo None, EvIOCounters None, EvCPUPercent None]"])
            simp
      qed
    qed
  qed
qed

subsection \<open>The loop\<close>

text \<open>
  Whenever the loop returns, the events it added are all answered without error
  except possibly the last, whose error is the error returned; and the elapsed
  times of the samples it appended are the readings of the clock it made, in
  order, without the last reading (the one that ended the loop).
\<close>

lemma sampling_loop_trace:
  assumes "sampling_loop E proc start duration intv running samples s = Some y"
  shows "\<exists>evs. trace (snd y) = trace s @ evs \<and> evs \<noteq> [] \<and>
           list_all answered (butlast evs) \<and> ev_error (last evs) = err_of (fst y) \<and>
           since_readings evs \<noteq> [] \<and>
           (\<forall>samples'. fst y = Inr samples' \<longrightarrow>
              map interval samples' = map interval samples @ butlast (since_readings evs))"
  using assms
proof (induction rule: sampling_loop.raw_induct [rotated 1, consumes 1])
  case (1 loop E proc start duration intv running samples s y)
  obtain t s1 where s1: "call_Since E start s = (t, s1)"
    by (cases "call_Since E start s")
  note tr1 = trace_call_Since [OF s1]
  show ?case
  proof (cases "duration = 0 \<or> (t \<le>s duration \<and> running)")
    case False
    with 1(2) s1 have "y = (Inr samples, s1)" by auto
    with tr1 show ?thesis by (intro exI [of _ "[EvSince t]"]) simp
  next
    case True
    obtain r4 s4 where s4: "query_metrics E proc s1 = (r4, s4)"
      by (cases "query_metrics E proc s1")
    from trace_query_metrics [OF s4] obtain qs where qs:
      "trace s4 = trace s1 @ qs" "qs \<noteq> []" "since_readings qs = []"
      "list_all answered (butlast qs)" "ev_error (last qs) = err_of r4"
      by blast
    show ?thesis
    proof (cases r4)
      case (Inl e)
      with 1(2) s1 s4 True have "y = (Inl e, s4)" by auto
      with tr1 qs Inl show ?thesis
        by (intro exI [of _ "EvSince t # qs"]) simp
    next
      case mic: (Inr mic)
      obtain m i c where mic_eq: "mic = (m, i, c)" by (cases mic)
      from qs mic have qs_ok: "list_all answered qs"
        using append_butlast_last_id [OF qs(2)]
        by (metis answered_def err_of.simps(2) list.pred_inject(1,2) list_all_append)
      obtain r6 s6 where s6: "call_IsRunning E proc (call_Sleep E intv s4) = (r6, s6)"
        by (cases "call_IsRunning E proc (call_Sleep E intv s4)")
      note tr6 = trace_call_IsRunning [OF s6, unfolded trace_call_Sleep]
      show ?thesis
      proof (cases r6)
        case (Inl e)
        with 1(2) s1 s4 s6 True mic mic_eq have "y = (Inl e, s6)" by auto
        with tr1 qs qs_ok tr6 Inl show ?thesis
          by (intro exI [of _ "EvSince t # qs @ [EvSleep intv, EvIsRunning (Some e)]"])
            (simp add: butlast_append since_readings_append)
      next
        case r: (Inr running')
        let ?smp = "\<lparr>mem = m, io = i, cpu = c, interval = t\<rparr>"
        from 1(2) s1 s4 s6 True mic mic_eq r
        have "loop E proc start duration intv running' (samples @ [?smp]) s6 = Some y"
          by auto
        from 1(1) [OF this] obtain evs where evs:
          "trace (snd y) = trace s6 @ evs" "evs \<noteq> []"
          "list_all answered (butlast evs)" "ev_error (last evs) = err_of (fst y)"
          "since_readings evs \<noteq> []"
          "\<forall>samples'. fst y = Inr samples' \<longrightarrow>
             map interval samples' = map interval (samples @ [?smp]) @ butlast (since_readings evs)"
          by blast
        show ?thesis
          using evs tr1 qs qs_ok tr6 r
          by (intro exI [of _ "EvSince t # qs @ [EvSleep intv, EvIsRunning None] @ evs"])
            (simp add: butlast_append since_readings_append)
      qed
    qed
  qed
qed

subsection \<open>\<^verbatim>\<open>New\<close> as a whole\<close>

text \<open>The paths through \<^verbatim>\<open>New\<close>, one equation for each.\<close>

lemma New_divide_by_zero:
  "duration_div duration intv = None \<Longrightarrow> New E p duration intv s = Some (Panic DivideByZero, s)"
  by (simp add: New_def)

lemma New_too_few:
  "duration_div duration intv = Some n \<Longrightarrow> n <s 2 \<Longrightarrow>
   New E p duration intv s = Some (Return (Inl InsufficientSamplesError), s)"
  by (simp add: New_def)

lemma New_NewProcess_error:
  "duration_div duration intv = Some n \<Longrightarrow> \<not> n <s 2 \<Longrightarrow>
   call_NewProcess E p s = (Inl e, s1) \<Longrightarrow>
   New E p duration intv s = Some (Return (Inl e), s1)"
  by (simp add: New_def)

lemma New_makeslice_panic:
  "duration_div duration intv = Some n \<Longrightarrow> \<not> n <s 2 \<Longrightarrow>
   call_NewProcess E p s = (Inr proc, s1) \<Longrightarrow> call_Now E s1 = (start, s2) \<Longrightarrow>
   \<not> makeslice E n \<Longrightarrow>
   New E p duration intv s = Some (Panic MakesliceOutOfRange, s2)"
  by (simp add: New_def)

lemma New_IsRunning_error:
  "duration_div duration intv = Some n \<Longrightarrow> \<not> n <s 2 \<Longrightarrow>
   call_NewProcess E p s = (Inr proc, s1) \<Longrightarrow> call_Now E s1 = (start, s2) \<Longrightarrow>
   makeslice E n \<Longrightarrow> call_IsRunning E proc s2 = (Inl e, s3) \<Longrightarrow>
   New E p duration intv s = Some (Return (Inl e), s3)"
  by (simp add: New_def)

lemma New_enters_loop:
  "duration_div duration intv = Some n \<Longrightarrow> \<not> n <s 2 \<Longrightarrow>
   call_NewProcess E p s = (Inr proc, s1) \<Longrightarrow> call_Now E s1 = (start, s2) \<Longrightarrow>
   makeslice E n \<Longrightarrow> call_IsRunning E proc s2 = (Inr running, s3) \<Longrightarrow>
   New E p duration intv s =
     (case sampling_loop E proc start duration intv running [] s3 of
        None \<Rightarrow> None
      | Some (Inl err, s4) \<Rightarrow> Some (Return (Inl err), s4)
      | Some (Inr samples, s4) \<Rightarrow>
          Some (Return (Inr \<lparr>Pid = p, StartTime = start,
              SamplingInterval = intv, Samples = samples\<rparr>), s4))"
  by (simp add: New_def)

text \<open>
  Whenever \<^verbatim>\<open>New\<close> returns or panics: every event it added but the last was
  answered without error; if the last one carries an error, that error is what
  \<^verbatim>\<open>New\<close> returns; and the elapsed times of a returned run are the readings of
  the clock, in order, without the last.
\<close>

lemma New_trace:
  assumes "New E p duration intv s = Some (out, s')"
  shows "\<exists>evs. trace s' = trace s @ evs \<and> list_all answered (butlast evs) \<and>
           (\<forall>e. evs \<noteq> [] \<and> ev_error (last evs) = Some e \<longrightarrow> out = Return (Inl e)) \<and>
           (\<forall>pinfo. out = Return (Inr pinfo) \<longrightarrow>
              map interval (Samples pinfo) = butlast (since_readings evs))"
proof (cases "duration_div duration intv")
  case None
  from assms New_divide_by_zero [OF None, of E p s]
  have "out = Panic DivideByZero" "s' = s" by simp_all
  then show ?thesis by (intro exI [of _ "[]"]) simp
next
  case (Some n)
  show ?thesis
  proof (cases "n <s 2")
    case True
    from assms New_too_few [OF Some True, of E p s]
    have "out = Return (Inl InsufficientSamplesError)" "s' = s" by simp_all
    then show ?thesis by (intro exI [of _ "[]"]) simp
  next
    case False
    obtain r1 s1 where s1: "call_NewProcess E p s = (r1, s1)"
      by (cases "call_NewProcess E p s")
    note tr1 = trace_call_NewProcess [OF s1]
    show ?thesis
    proof (cases r1)
      case (Inl e)
      from assms New_NewProcess_error [OF Some False s1 [unfolded Inl]]
      have "out = Return (Inl e)" "s' = s1" by simp_all
      with tr1 Inl show ?thesis by (intro exI [of _ "[EvNewProcess p (Some e)]"]) simp
    next
      case proc: (Inr proc)
      note s1' = s1 [unfolded proc]
      obtain start s2 where s2: "call_Now E s1 = (start, s2)" by (cases "call_Now E s1")
      note tr2 = trace_call_Now [OF s2]
      show ?thesis
      proof (cases "makeslice E n")
        case no: False
        from assms New_makeslice_panic [OF Some False s1' s2 no]
        have "out = Panic MakesliceOutOfRange" "s' = s2" by simp_all
        with tr1 tr2 proc show ?thesis
          by (intro exI [of _ "[EvNewProcess p None, EvNow]"]) simp
      next
        case ok: True
        obtain r3 s3 where s3: "call_IsRunning E proc s2 = (r3, s3)"
          by (cases "call_IsRunning E proc s2")
        note tr3 = trace_call_IsRunning [OF s3]
        show ?thesis
        proof (cases r3)
          case (Inl e)
          from assms New_IsRunning_error [OF Some False s1' s2 ok s3 [unfolded Inl]]
          have "out = Return (Inl e)" "s' = s3" by simp_all
          with tr1 tr2 tr3 proc Inl show ?thesis
            by (intro exI [of _ "[EvNewProcess p None, EvNow, EvIsRunning (Some e)]"]) simp
        next
          case running: (Inr running)
          note eq = New_enters_loop [OF Some False s1' s2 ok s3 [unfolded running]]
          obtain r s4 where y: "sampling_loop E proc start duration intv running [] s3 = Some (r, s4)"
            using assms eq
            by (cases "sampling_loop E proc start duration intv running [] s3") auto
          from sampling_loop_trace [OF y] obtain evs where evs:
            "trace s4 = trace s3 @ evs" "evs \<noteq> []"
            "list_all answered (butlast evs)" "ev_error (last evs) = err_of r"
            "\<forall>samples'. r = Inr samples' \<longrightarrow>
               map interval samples' = butlast (since_readings evs)"
            by auto
          let ?pre = "[EvNewProcess p None, EvNow, EvIsRunning None]"
          have tr: "trace s4 = trace s @ ?pre @ evs"
            using evs(1) tr1 tr2 tr3 proc running by simp
          have bl: "list_all answered (butlast (?pre @ evs))"
            using evs(2,3) by (simp add: butlast_append)
          have la: "last (?pre @ evs) = last evs"
            using evs(2) by simp
          have sr: "since_readings (?pre @ evs) = since_readings evs"
            by (simp add: since_readings_append)
          show ?thesis
          proof (cases r)
            case (Inl e)
            from assms [unfolded eq y] Inl have "out = Return (Inl e)" "s' = s4" by simp_all
            with tr bl la evs(4) Inl show ?thesis
              by (intro exI [of _ "?pre @ evs"]) simp
          next
            case (Inr samples)
            from assms [unfolded eq y] Inr
            have "out = Return (Inr \<lparr>Pid = p, StartTime = start,
                SamplingInterval = intv, Samples = samples\<rparr>)" "s' = s4"
              by simp_all
            with tr bl la sr evs(4,5) Inr show ?thesis
              by (intro exI [of _ "?pre @ evs"]) simp
          qed
        qed
      qed
    qed
  qed
qed

lemma sorted_wrt_butlast: "sorted_wrt P xs \<Longrightarrow> sorted_wrt P (butlast xs)"
  by (simp add: butlast_conv_take sorted_wrt_take)

lemma list_all_butlast: "list_all P xs \<Longrightarrow> list_all P (butlast xs)"
  by (auto simp: list_all_iff dest: in_set_butlastD)

section \<open>The claims\<close>

text \<open>
  C1. The claim: a call with \<^verbatim>\<open>duration == 0\<close> is accepted and samples until the
  process exits. The code: \<^verbatim>\<open>0 / interval\<close> is \<open>0\<close>, which is below \<open>2\<close>, so
  every call with a zero duration returns the error of the minimum-sample check
  (or panics on a zero interval) without resolving the process or taking a sample.
\<close>

theorem New_zero_duration_rejected:
  "New E p 0 intv s =
     Some (if intv = 0 then Panic DivideByZero else Return (Inl InsufficientSamplesError), s)"
  by (simp add: New_def duration_div_def word_sless_alt)

text \<open>
  C3. When \<^verbatim>\<open>duration / interval\<close> yields a number below \<open>2\<close>, \<^verbatim>\<open>New\<close>
  returns \<open>InsufficientSamplesError\<close> and leaves the state as it was: the world is
  untouched and nothing is added to the trace, so the provider was not invoked.
  Conversely, when \<^verbatim>\<open>New\<close> returns a run, or has made any call at all, the
  division yielded at least \<open>2\<close>.
\<close>

theorem New_insufficient_samples:
  "(duration_div duration intv = Some n \<and> n <s 2
      \<longrightarrow> New E p duration intv s = Some (Return (Inl InsufficientSamplesError), s))
   \<and> (New E p duration intv s = Some (out, s') \<and> (out = Return (Inr pinfo) \<or> trace s' \<noteq> trace s)
      \<longrightarrow> (\<exists>k. duration_div duration intv = Some k \<and> 2 \<le>s k))"
proof (intro conjI impI)
  assume "duration_div duration intv = Some n \<and> n <s 2"
  then show "New E p duration intv s = Some (Return (Inl InsufficientSamplesError), s)"
    by (simp add: New_too_few)
next
  assume a: "New E p duration intv s = Some (out, s') \<and>
    (out = Return (Inr pinfo) \<or> trace s' \<noteq> trace s)"
  show "\<exists>k. duration_div duration intv = Some k \<and> 2 \<le>s k"
  proof (cases "duration_div duration intv")
    case None
    from a New_divide_by_zero [OF None, of E p s] show ?thesis by auto
  next
    case (Some k)
    have "\<not> k <s 2"
    proof
      assume "k <s 2"
      from a New_too_few [OF Some this, of E p s] show False by auto
    qed
    then have "2 \<le>s k" by (simp add: word_sle_eq word_sless_alt)
    with Some show ?thesis by simp
  qed
qed

theorem New_insufficient_samples_witness:
  "duration_div 500000000 1000000000 = Some 0 \<and> (0 :: Duration) <s 2
   \<and> New (sim_env never 100) 7 500000000 1000000000 (init 0)
       = Some (Return (Inl InsufficientSamplesError), init 0)
   \<and> New (sim_env never 0) 7 2 1 (init 0)
       = Some (Return (Inr \<lparr>Pid = 7, StartTime = 0, SamplingInterval = 1, Samples = []\<rparr>),
               \<lparr>world = 0, trace = [EvNewProcess 7 None, EvNow, EvIsRunning None, EvSince 0]\<rparr>)
   \<and> duration_div 2 1 = Some 2 \<and> (2 :: Duration) \<le>s 2"
proof -
  have d: "duration_div 500000000 1000000000 = Some 0 \<and> (0 :: Duration) <s 2"
    by code_simp
  have run: "New (sim_env never 0) 7 2 1 (init 0)
       = Some (Return (Inr \<lparr>Pid = 7, StartTime = 0, SamplingInterval = 1, Samples = []\<rparr>),
               \<lparr>world = 0, trace = [EvNewProcess 7 None, EvNow, EvIsRunning None, EvSince 0]\<rparr>)"
    by code_simp
  have q: "duration_div 2 1 = Some 2 \<and> (2 :: Duration) \<le>s 2"
    by code_simp
  from New_insufficient_samples
    [of 500000000 1000000000 0 "sim_env never 100" 7 "init 0"] d
  have "New (sim_env never 100) 7 500000000 1000000000 (init 0)
       = Some (Return (Inl InsufficientSamplesError), init 0)"
    by blast
  moreover from New_insufficient_samples
    [of 2 1 2 "sim_env never 0" 7 "init 0"
      "Return (Inr \<lparr>Pid = 7, StartTime = 0, SamplingInterval = 1, Samples = []\<rparr>)"
      "\<lparr>world = 0, trace = [EvNewProcess 7 None, EvNow, EvIsRunning None, EvSince 0]\<rparr>"
      "\<lparr>Pid = 7, StartTime = 0, SamplingInterval = 1, Samples = []\<rparr>"] run
  have "\<exists>k. duration_div 2 1 = Some k \<and> 2 \<le>s k" by blast
  ultimately show ?thesis using d run q by blast
qed

end
